theory Spec2Isabelle
  imports Complex_Main
begin

section \<open>Values\<close>

text \<open>
  Modelled from the spec: the class EID (rec/dtn/eid.py) is not among the sources. An EID is
  held as its normalized textual value, by which the spec says EIDs are compared; building an
  EID from that text gives the same EID. The falsy EID is the null endpoint, the one
  messages.py names in "EndpointID must not be dtn:none".
\<close>

type_synonym EID = string

definition eid_bool :: "EID \<Rightarrow> bool" where
  "eid_bool e = (e \<noteq> ''dtn:none'')"

type_synonym bytes = string

text \<open>
  A Python number, int or float, held as its value: Python compares, hashes and tests numbers
  by value, so the float 2.0 is the int 2 wherever the code below uses a number. A finite float
  is a rational; NaN and the infinities are not among the values.
\<close>

type_synonym number = rat

text \<open>
  The Python values that occur in the dictionaries of messages.py and broker.py, and those
  msgpack decodes. A member of an IntEnum is the int it is (it compares, hashes and packs as
  that int). A dictionary is the list of its items in insertion order, with text keys.
\<close>

datatype pyval =
    PNone
  | PBool bool
  | PInt int
  | PFloat rat
  | PStr string
  | PBytes bytes
  | PEID EID
  | PList "pyval list"
  | PDict "(string \<times> pyval) list"

text \<open>Truth value of a Python value, as \<^verbatim>\<open>if value\<close> and \<^verbatim>\<open>not value\<close> read it.\<close>

fun py_bool :: "pyval \<Rightarrow> bool" where
  "py_bool PNone = False"
| "py_bool (PBool b) = b"
| "py_bool (PInt i) = (i \<noteq> 0)"
| "py_bool (PFloat q) = (q \<noteq> 0)"
| "py_bool (PStr s) = (s \<noteq> [])"
| "py_bool (PBytes s) = (s \<noteq> [])"
| "py_bool (PEID e) = eid_bool e"
| "py_bool (PList xs) = (xs \<noteq> [])"
| "py_bool (PDict d) = (d \<noteq> [])"

text \<open>
  Exceptions. The text of an f-string is kept as its template, the interpolated values are
  not rendered. \<open>OutsideModel\<close> is not a Python exception: Python stores a decoded value in
  a field without checking its type, the records below have typed fields, and a decoded value
  outside the declared type of its field ends the model there.
\<close>

datatype exn =
    InvalidMessageError string
  | InvalidBundleError string
  | KeyError string
  | TypeError string
  | OverflowError string
  | OutsideModel string

section \<open>messages.py: enumerations\<close>

text \<open>
  The members of NodeType are numbers here, since they are compared with the \<open>node_type\<close> of
  a bundle and looked up under it, and that may be any number.
\<close>

definition BROKER :: number where "BROKER = 1"
definition EXECUTOR :: number where "EXECUTOR = 2"
definition DATASTORE :: number where "DATASTORE = 3"
definition CLIENT :: number where "CLIENT = 4"

definition REPLY :: int where "REPLY = 1"
definition REGISTER :: int where "REGISTER = 2"
definition FETCH :: int where "FETCH = 3"
definition FETCH_REPLY :: int where "FETCH_REPLY = 4"
definition CREATE :: int where "CREATE = 5"

definition BROKER_ANNOUNCE :: int where "BROKER_ANNOUNCE = 1"
definition BROKER_REQUEST :: int where "BROKER_REQUEST = 2"
definition BROKER_ACK :: int where "BROKER_ACK = 3"
definition JOB_SUBMIT :: int where "JOB_SUBMIT = 11"
definition JOB_RESULT :: int where "JOB_RESULT = 12"
definition JOB_QUERY :: int where "JOB_QUERY = 13"
definition JOB_LIST :: int where "JOB_LIST = 14"
definition NDATA_PUT :: int where "NDATA_PUT = 21"
definition NDATA_GET :: int where "NDATA_GET = 22"
definition NDATA_DEL :: int where "NDATA_DEL = 23"

section \<open>messages.py: BundleData\<close>

text \<open>\<^verbatim>\<open>named_data: str | list[str] | None\<close>: the two forms that are not None.\<close>

datatype named = Name string | Names "string list"

text \<open>
  The dataclass BundleData. \<open>type\<close> is an int. \<open>node_type\<close> is a number: its default is 0,
  its check is a comparison of numbers, and \<^verbatim>\<open>cls(**data)\<close> stores under it whatever number
  the wire carries, 2.5 as well as 2.
\<close>

record BundleData =
  type :: int
  source :: EID
  destination :: EID
  payload :: bytes
  success :: bool
  error :: string
  node_type :: number
  submitter :: "EID option"
  named_data :: "named option"

text \<open>The Python value of a number: an int when the number is integral, a float otherwise.\<close>

definition num_val :: "number \<Rightarrow> pyval" where
  "num_val q = (if of_int \<lfloor>q\<rfloor> = q then PInt \<lfloor>q\<rfloor> else PFloat q)"

definition submitter_val :: "EID option \<Rightarrow> pyval" where
  "submitter_val s = (case s of None \<Rightarrow> PNone | Some e \<Rightarrow> PEID e)"

definition named_val :: "named option \<Rightarrow> pyval" where
  "named_val n =
     (case n of None \<Rightarrow> PNone
      | Some (Name s) \<Rightarrow> PStr s
      | Some (Names l) \<Rightarrow> PList (map PStr l))"

text \<open>\<^verbatim>\<open>BundleData.__post_init__\<close>: None when it returns, the exception when it raises.\<close>

definition BundleData_post_init :: "BundleData \<Rightarrow> exn option" where
  "BundleData_post_init self =
     (if \<not> eid_bool (source self) then
        Some (InvalidBundleError ''Bundles must be sent by someone'')
      else if \<not> eid_bool (destination self) then
        Some (InvalidBundleError ''Bundles must be addressed to someone'')
      else if \<not> success self \<and> \<not> error self \<noteq> [] then
        Some (InvalidBundleError ''If operation was unsuccessful, there should be an error'')
      else if success self \<and> error self \<noteq> [] then
        Some (InvalidBundleError ''If operation was successful, there should be no error'')
      else if BROKER_ANNOUNCE \<le> type self \<and> type self \<le> BROKER_ACK
              \<and> (BundleData.node_type self < BROKER \<or> BundleData.node_type self > CLIENT) then
        Some (InvalidBundleError ''Invalid node type: {self.node_type}'')
      else if (type self = JOB_QUERY \<or> type self = JOB_LIST)
              \<and> \<not> py_bool (submitter_val (submitter self)) then
        Some (InvalidBundleError ''Job query/list bundles must have a submitter set'')
      else if NDATA_PUT \<le> type self \<and> type self \<le> NDATA_DEL
              \<and> \<not> py_bool (named_val (named_data self)) then
        Some (InvalidBundleError ''Named data bundles need to have a data name set'')
      else None)"

text \<open>Construction: the fields are stored, then \<^verbatim>\<open>__post_init__\<close> runs.\<close>

definition new_BundleData :: "BundleData \<Rightarrow> exn + BundleData" where
  "new_BundleData self =
     (case BundleData_post_init self of Some e \<Rightarrow> Inl e | None \<Rightarrow> Inr self)"

text \<open>
  \<^verbatim>\<open>self.__dict__\<close> of a BundleData: its fields in declaration order, each with the Python
  value it holds.
\<close>

definition BundleData_dict :: "BundleData \<Rightarrow> (string \<times> pyval) list" where
  "BundleData_dict self =
     [(''type'', PInt (type self)),
      (''source'', PEID (source self)),
      (''destination'', PEID (destination self)),
      (''payload'', PBytes (payload self)),
      (''success'', PBool (success self)),
      (''error'', PStr (error self)),
      (''node_type'', num_val (BundleData.node_type self)),
      (''submitter'', submitter_val (submitter self)),
      (''named_data'', named_val (named_data self))]"

text \<open>\<^verbatim>\<open>d[key] = value\<close>: an existing key keeps its place, a new key goes last.\<close>

fun dict_set :: "(string \<times> pyval) list \<Rightarrow> string \<Rightarrow> pyval \<Rightarrow> (string \<times> pyval) list" where
  "dict_set [] key val = [(key, val)]"
| "dict_set ((k, v) # d) key val =
     (if k = key then (key, val) # d else (k, v) # dict_set d key val)"

text \<open>\<^verbatim>\<open>BundleData.dictify\<close>.\<close>

definition BundleData_dictify :: "BundleData \<Rightarrow> (string \<times> pyval) list" where
  "BundleData_dictify self =
     (let data = filter (\<lambda>(key, val). py_bool val) (BundleData_dict self)
      in dict_set data ''success'' (PBool (success self)))"

section \<open>messages.py: Message\<close>

text \<open>
  The dataclasses Reply, Register, Fetch, FetchReply and BundleCreate, each with the field
  \<open>type\<close> of Message first and then its own fields in declaration order. The \<open>node_type\<close>
  of a Fetch is a number, as that of a bundle is.
\<close>

datatype Message =
    Reply int bool string
  | Register int EID
  | Fetch int EID number
  | FetchReply int bool string "BundleData list"
  | BundleCreate int BundleData

text \<open>The \<^verbatim>\<open>__post_init__\<close> of each class: None when it returns.\<close>

definition Reply_post_init :: "int \<Rightarrow> bool \<Rightarrow> string \<Rightarrow> exn option" where
  "Reply_post_init type' success' error' =
     (if type' \<noteq> REPLY then
        Some (InvalidMessageError
                ''Message needs MessageType {MessageType.REPLY}, but has {self.type}'')
      else if \<not> success' \<and> \<not> error' \<noteq> [] then
        Some (InvalidMessageError ''If operation was unsuccessful, there should be an error'')
      else if success' \<and> error' \<noteq> [] then
        Some (InvalidMessageError ''If operation was successful, there should be no error'')
      else None)"

text \<open>
  Register and Fetch test \<^verbatim>\<open>not self.endpoint_id\<close>. The second argument is the truth value
  of the endpoint: that of an EID when the message is built from one, that of a text when
  \<^verbatim>\<open>from_dict\<close> passes the decoded text on.
\<close>

definition Register_post_init :: "int \<Rightarrow> bool \<Rightarrow> exn option" where
  "Register_post_init type' endpoint_id =
     (if type' \<noteq> REGISTER then
        Some (InvalidMessageError
                ''Message needs MessageType {MessageType.REPLY}, but has {self.type}'')
      else if \<not> endpoint_id then
        Some (InvalidMessageError ''EndpointID must not be dtn:none'')
      else None)"

definition Fetch_post_init :: "int \<Rightarrow> bool \<Rightarrow> exn option" where
  "Fetch_post_init type' endpoint_id =
     (if type' \<noteq> FETCH then
        Some (InvalidMessageError
                ''Message needs MessageType {MessageType.REPLY}, but has {self.type}'')
      else if \<not> endpoint_id then
        Some (InvalidMessageError ''EndpointID must not be dtn:none'')
      else None)"

definition FetchReply_post_init :: "int \<Rightarrow> exn option" where
  "FetchReply_post_init type' =
     (if type' \<noteq> FETCH_REPLY then
        Some (InvalidMessageError
                ''Message needs MessageType {MessageType.REPLY}, but has {self.type}'')
      else None)"

definition BundleCreate_post_init :: "int \<Rightarrow> exn option" where
  "BundleCreate_post_init type' =
     (if type' \<noteq> CREATE then
        Some (InvalidMessageError
                ''Message needs MessageType {MessageType.REPLY}, but has {self.type}'')
      else None)"

text \<open>
  Construction of a message from typed arguments. The bundles of a FetchReply and the bundle
  of a BundleCreate are BundleData that were constructed before.
\<close>

definition new_Reply :: "int \<Rightarrow> bool \<Rightarrow> string \<Rightarrow> exn + Message" where
  "new_Reply type' success' error' =
     (case Reply_post_init type' success' error' of
        Some e \<Rightarrow> Inl e | None \<Rightarrow> Inr (Reply type' success' error'))"

definition new_Register :: "int \<Rightarrow> EID \<Rightarrow> exn + Message" where
  "new_Register type' endpoint_id =
     (case Register_post_init type' (eid_bool endpoint_id) of
        Some e \<Rightarrow> Inl e | None \<Rightarrow> Inr (Register type' endpoint_id))"

definition new_Fetch :: "int \<Rightarrow> EID \<Rightarrow> number \<Rightarrow> exn + Message" where
  "new_Fetch type' endpoint_id node_type' =
     (case Fetch_post_init type' (eid_bool endpoint_id) of
        Some e \<Rightarrow> Inl e | None \<Rightarrow> Inr (Fetch type' endpoint_id node_type'))"

definition new_FetchReply :: "int \<Rightarrow> bool \<Rightarrow> string \<Rightarrow> BundleData list \<Rightarrow> exn + Message" where
  "new_FetchReply type' success' error' bundles =
     (case FetchReply_post_init type' of
        Some e \<Rightarrow> Inl e | None \<Rightarrow> Inr (FetchReply type' success' error' bundles))"

definition new_BundleCreate :: "int \<Rightarrow> BundleData \<Rightarrow> exn + Message" where
  "new_BundleCreate type' bundle =
     (case BundleCreate_post_init type' of
        Some e \<Rightarrow> Inl e | None \<Rightarrow> Inr (BundleCreate type' bundle))"

text \<open>
  \<^verbatim>\<open>dictify\<close> of each class. For FetchReply and BundleCreate the parent's dictionary holds the
  bundle objects under \<open>bundles\<close> and \<open>bundle\<close>, and \<^verbatim>\<open>parent_dict | own_dict\<close> puts the
  dictified bundles in their place.
\<close>

fun Message_dictify :: "Message \<Rightarrow> (string \<times> pyval) list" where
  "Message_dictify (Reply type' success' error') =
     [(''type'', PInt type'), (''success'', PBool success'), (''error'', PStr error')]"
| "Message_dictify (Register type' endpoint_id) =
     [(''type'', PInt type'), (''endpoint_id'', PEID endpoint_id)]"
| "Message_dictify (Fetch type' endpoint_id node_type') =
     [(''type'', PInt type'), (''endpoint_id'', PEID endpoint_id),
      (''node_type'', num_val node_type')]"
| "Message_dictify (FetchReply type' success' error' bundles) =
     [(''type'', PInt type'), (''success'', PBool success'), (''error'', PStr error'),
      (''bundles'', PList (map (\<lambda>bundle. PDict (BundleData_dictify bundle)) bundles))]"
| "Message_dictify (BundleCreate type' bundle) =
     [(''type'', PInt type'), (''bundle'', PDict (BundleData_dictify bundle))]"

text \<open>
  \<^verbatim>\<open>serialize\<close>. \<open>packb\<close> and \<open>unpackb\<close> are msgpack's, and parameters here: \<open>packb\<close> gives
  the bytes or raises, \<open>unpackb\<close> gives the decoded value or raises.
\<close>

definition serialize :: "(pyval \<Rightarrow> exn + bytes) \<Rightarrow> Message \<Rightarrow> exn + bytes" where
  "serialize packb message = (let data = Message_dictify message in packb (PDict data))"

text \<open>
  What msgpack decodes from the bytes it packed a value into: an EID comes back as its text
  (the wire holds the text form of an EID), everything else as it was.
\<close>

fun wire_form :: "pyval \<Rightarrow> pyval" where
  "wire_form (PEID e) = PStr e"
| "wire_form (PList xs) = PList (map wire_form xs)"
| "wire_form (PDict d) = PDict (map (\<lambda>(k, v). (k, wire_form v)) d)"
| "wire_form v = v"

text \<open>Running a list of calls that may raise: the first exception ends it.\<close>

fun map_exn :: "('a \<Rightarrow> exn + 'b) \<Rightarrow> 'a list \<Rightarrow> exn + 'b list" where
  "map_exn f [] = Inr []"
| "map_exn f (x # xs) =
     (case f x of
        Inl e \<Rightarrow> Inl e
      | Inr y \<Rightarrow> (case map_exn f xs of Inl e \<Rightarrow> Inl e | Inr ys \<Rightarrow> Inr (y # ys)))"

text \<open>
  \<^verbatim>\<open>cls(**data)\<close> binds the keys of \<open>data\<close> to the parameters of \<^verbatim>\<open>__init__\<close>: a key that is
  no field, or a field without default that has no key, raises TypeError.
\<close>

definition bind_kwargs :: "string list \<Rightarrow> string list \<Rightarrow> (string \<times> pyval) list \<Rightarrow> exn option" where
  "bind_kwargs names required data =
     (if \<not> set (map fst data) \<subseteq> set names then
        Some (TypeError ''__init__() got an unexpected keyword argument'')
      else if \<not> set required \<subseteq> set (map fst data) then
        Some (TypeError ''__init__() missing required positional arguments'')
      else None)"

text \<open>A decoded value read at the declared type' of its field. A bool is an int in Python.\<close>

fun as_int :: "pyval \<Rightarrow> int option" where
  "as_int (PInt i) = Some i"
| "as_int (PBool b) = Some (if b then 1 else 0)"
| "as_int v = None"

fun as_number :: "pyval \<Rightarrow> number option" where
  "as_number (PInt i) = Some (of_int i)"
| "as_number (PBool b) = Some (if b then 1 else 0)"
| "as_number (PFloat q) = Some q"
| "as_number v = None"

fun as_bool :: "pyval \<Rightarrow> bool option" where
  "as_bool (PBool b) = Some b"
| "as_bool v = None"

fun as_str :: "pyval \<Rightarrow> string option" where
  "as_str (PStr s) = Some s"
| "as_str v = None"

fun as_bytes :: "pyval \<Rightarrow> bytes option" where
  "as_bytes (PBytes s) = Some s"
| "as_bytes v = None"

fun as_named :: "pyval \<Rightarrow> named option option" where
  "as_named PNone = Some None"
| "as_named (PStr s) = Some (Some (Name s))"
| "as_named (PList xs) =
     (if list_all (\<lambda>x. as_str x \<noteq> None) xs
      then Some (Some (Names (map (\<lambda>x. the (as_str x)) xs))) else None)"
| "as_named v = None"

text \<open>
  The value of a field after binding: the decoded value under its key, or the default of the
  field when the key is absent.
\<close>

definition typed :: "(string \<times> pyval) list \<Rightarrow> string \<Rightarrow> (pyval \<Rightarrow> 'a option) \<Rightarrow> 'a \<Rightarrow> exn + 'a" where
  "typed data key read dflt =
     (case map_of data key of
        None \<Rightarrow> Inr dflt
      | Some v \<Rightarrow> (case read v of None \<Rightarrow> Inl (OutsideModel key) | Some x \<Rightarrow> Inr x))"

text \<open>
  Modelled from the spec: \<^verbatim>\<open>EID(text)\<close>, the constructor of the class EID, which is not among
  the sources. The EID of a text is the EID with that textual value.
\<close>

fun EID_of :: "pyval \<Rightarrow> exn + EID" where
  "EID_of (PStr s) = Inr s"
| "EID_of (PEID e) = Inr e"
| "EID_of v = Inl (OutsideModel ''EID'')"

definition andthen :: "exn + 'a \<Rightarrow> ('a \<Rightarrow> exn + 'b) \<Rightarrow> exn + 'b" where
  "andthen r f = (case r of Inl e \<Rightarrow> Inl e | Inr x \<Rightarrow> f x)"

text \<open>\<^verbatim>\<open>data[key]\<close> of a dictionary.\<close>

definition getitem :: "(string \<times> pyval) list \<Rightarrow> string \<Rightarrow> exn + pyval" where
  "getitem data key = (case map_of data key of None \<Rightarrow> Inl (KeyError key) | Some v \<Rightarrow> Inr v)"

text \<open>
  \<^verbatim>\<open>BundleData.from_dict\<close>. \<^verbatim>\<open>data["source"]\<close> on a value that is no dictionary raises
  TypeError.
\<close>

definition BundleData_from_dict :: "pyval \<Rightarrow> exn + BundleData" where
  "BundleData_from_dict data =
     (case data of
        PDict d \<Rightarrow>
          andthen (getitem d ''source'') (\<lambda>v.
          andthen (EID_of v) (\<lambda>source'.
          andthen (getitem d ''destination'') (\<lambda>v.
          andthen (EID_of v) (\<lambda>destination'.
          andthen (case map_of d ''submitter'' of
                     None \<Rightarrow> Inr None
                   | Some v \<Rightarrow> andthen (EID_of v) (\<lambda>e. Inr (Some e))) (\<lambda>submitter'.
          case bind_kwargs
                 [''type'', ''source'', ''destination'', ''payload'', ''success'', ''error'',
                  ''node_type'', ''submitter'', ''named_data'']
                 [''type'', ''source'', ''destination''] d of
            Some e \<Rightarrow> Inl e
          | None \<Rightarrow>
              andthen (typed d ''type'' as_int 0) (\<lambda>type'.
              andthen (typed d ''payload'' as_bytes []) (\<lambda>payload'.
              andthen (typed d ''success'' as_bool True) (\<lambda>success'.
              andthen (typed d ''error'' as_str []) (\<lambda>error'.
              andthen (typed d ''node_type'' as_number 0) (\<lambda>node_type'.
              andthen (typed d ''named_data'' as_named None) (\<lambda>named_data'.
              new_BundleData
                \<lparr> type = type', source = source', destination = destination',
                  payload = payload', success = success', error = error',
                  node_type = node_type', submitter = submitter',
                  named_data = named_data' \<rparr>)))))))))))
      | _ \<Rightarrow> Inl (TypeError ''data[source]''))"

text \<open>The \<^verbatim>\<open>from_dict\<close> of each message class.\<close>

definition Reply_from_dict :: "(string \<times> pyval) list \<Rightarrow> exn + Message" where
  "Reply_from_dict data =
     (case bind_kwargs [''type'', ''success'', ''error''] [''type'', ''success'', ''error''] data of
        Some e \<Rightarrow> Inl e
      | None \<Rightarrow>
          andthen (typed data ''type'' as_int 0) (\<lambda>type'.
          andthen (typed data ''success'' as_bool True) (\<lambda>success'.
          andthen (typed data ''error'' as_str []) (\<lambda>error'.
          new_Reply type' success' error'))))"

text \<open>
  \<^verbatim>\<open>Register.from_dict\<close> and \<^verbatim>\<open>Fetch.from_dict\<close> do not build an EID: the endpoint stays the
  decoded text, which is falsy when empty and compares equal to the EID with that text.
\<close>

definition Register_from_dict :: "(string \<times> pyval) list \<Rightarrow> exn + Message" where
  "Register_from_dict data =
     (case bind_kwargs [''type'', ''endpoint_id''] [''type'', ''endpoint_id''] data of
        Some e \<Rightarrow> Inl e
      | None \<Rightarrow>
          andthen (typed data ''type'' as_int 0) (\<lambda>type'.
          andthen (typed data ''endpoint_id'' as_str []) (\<lambda>endpoint_id.
          case Register_post_init type' (endpoint_id \<noteq> []) of
            Some e \<Rightarrow> Inl e
          | None \<Rightarrow> Inr (Register type' endpoint_id))))"

definition Fetch_from_dict :: "(string \<times> pyval) list \<Rightarrow> exn + Message" where
  "Fetch_from_dict data =
     (case bind_kwargs [''type'', ''endpoint_id'', ''node_type'']
             [''type'', ''endpoint_id'', ''node_type''] data of
        Some e \<Rightarrow> Inl e
      | None \<Rightarrow>
          andthen (typed data ''type'' as_int 0) (\<lambda>type'.
          andthen (typed data ''endpoint_id'' as_str []) (\<lambda>endpoint_id.
          andthen (typed data ''node_type'' as_number 0) (\<lambda>node_type'.
          case Fetch_post_init type' (endpoint_id \<noteq> []) of
            Some e \<Rightarrow> Inl e
          | None \<Rightarrow> Inr (Fetch type' endpoint_id node_type')))))"

text \<open>
  What \<^verbatim>\<open>for bundle_data in data["bundles"]\<close> iterates over: the items of a list, the
  characters of a text, the ints of bytes, the keys of a dictionary.
\<close>

fun py_iter :: "pyval \<Rightarrow> exn + pyval list" where
  "py_iter (PList xs) = Inr xs"
| "py_iter (PStr s) = Inr (map (\<lambda>c. PStr [c]) s)"
| "py_iter (PBytes s) = Inr (map (\<lambda>c. PInt (of_char c)) s)"
| "py_iter (PDict d) = Inr (map (\<lambda>(k, v). PStr k) d)"
| "py_iter (PEID e) = Inl (OutsideModel ''EID'')"
| "py_iter v = Inl (TypeError ''object is not iterable'')"

definition FetchReply_from_dict :: "(string \<times> pyval) list \<Rightarrow> exn + Message" where
  "FetchReply_from_dict data =
     andthen (getitem data ''bundles'') (\<lambda>v.
     andthen (py_iter v) (\<lambda>items.
     andthen (map_exn BundleData_from_dict items) (\<lambda>bundles.
     case bind_kwargs [''type'', ''success'', ''error'', ''bundles'']
            [''type'', ''success'', ''error'', ''bundles''] data of
       Some e \<Rightarrow> Inl e
     | None \<Rightarrow>
         andthen (typed data ''type'' as_int 0) (\<lambda>type'.
         andthen (typed data ''success'' as_bool True) (\<lambda>success'.
         andthen (typed data ''error'' as_str []) (\<lambda>error'.
         new_FetchReply type' success' error' bundles))))))"

definition BundleCreate_from_dict :: "(string \<times> pyval) list \<Rightarrow> exn + Message" where
  "BundleCreate_from_dict data =
     andthen (getitem data ''bundle'') (\<lambda>v.
     andthen (BundleData_from_dict v) (\<lambda>bundle.
     case bind_kwargs [''type'', ''bundle''] [''type'', ''bundle''] data of
       Some e \<Rightarrow> Inl e
     | None \<Rightarrow>
         andthen (typed data ''type'' as_int 0) (\<lambda>type'.
         new_BundleCreate type' bundle)))"

text \<open>\<^verbatim>\<open>MESSAGE_CONSTRUCTORS\<close>, in the order of its items.\<close>

definition MESSAGE_CONSTRUCTORS :: "(int \<times> ((string \<times> pyval) list \<Rightarrow> exn + Message)) list" where
  "MESSAGE_CONSTRUCTORS =
     [(REPLY, Reply_from_dict),
      (REGISTER, Register_from_dict),
      (FETCH, Fetch_from_dict),
      (FETCH_REPLY, FetchReply_from_dict),
      (CREATE, BundleCreate_from_dict)]"

text \<open>
  \<^verbatim>\<open>key in MESSAGE_CONSTRUCTORS\<close> hashes the key, and raises TypeError on a list or a
  dictionary; a hashable key is in the dictionary when it equals one of its keys, as the
  bool True and the float 1.0 equal 1.
\<close>

fun py_hashable :: "pyval \<Rightarrow> bool" where
  "py_hashable (PList xs) = False"
| "py_hashable (PDict d) = False"
| "py_hashable v = True"

fun py_eq_int :: "pyval \<Rightarrow> int \<Rightarrow> bool" where
  "py_eq_int (PInt i) k = (i = k)"
| "py_eq_int (PBool b) k = ((if b then 1 else 0) = k)"
| "py_eq_int (PFloat q) k = (q = of_int k)"
| "py_eq_int v k = False"

definition constructor_for :: "pyval \<Rightarrow> ((string \<times> pyval) list \<Rightarrow> exn + Message) option" where
  "constructor_for key =
     map_option snd (find (\<lambda>(k, from_dict). py_eq_int key k) MESSAGE_CONSTRUCTORS)"

text \<open>
  \<^verbatim>\<open>deserialize\<close>. \<^verbatim>\<open>data_dict["type'"]\<close> raises TypeError when the decoded value is no
  dictionary and KeyError when the dictionary has no such key.
\<close>

definition deserialize :: "(bytes \<Rightarrow> exn + pyval) \<Rightarrow> bytes \<Rightarrow> exn + Message" where
  "deserialize unpackb serialized =
     (case unpackb serialized of
        Inl err \<Rightarrow> Inl err
      | Inr data_dict \<Rightarrow>
          (case data_dict of
             PDict d \<Rightarrow>
               andthen (getitem d ''type'') (\<lambda>tag.
               if \<not> py_hashable tag then Inl (TypeError ''unhashable type'')
               else (case constructor_for tag of
                       None \<Rightarrow> Inl (InvalidMessageError ''Message type {data_dict[type]} unknown'')
                     | Some from_dict \<Rightarrow> from_dict d))
           | _ \<Rightarrow> Inl (TypeError ''data_dict[type]'')))"

section \<open>msgpack\<close>

text \<open>
  \<^verbatim>\<open>MSGPACK_MAXINT\<close> of messages.py, 2^64 - 1: msgpack holds an int in 64 bits, from -2^63 to
  this, and raises OverflowError on a value that has any other int in it.
\<close>

definition MSGPACK_MAXINT :: int where
  "MSGPACK_MAXINT = 18446744073709551615"

fun packable :: "pyval \<Rightarrow> bool" where
  "packable (PInt i) = (- (2 ^ 63) \<le> i \<and> i \<le> MSGPACK_MAXINT)"
| "packable (PList xs) = list_all packable xs"
| "packable (PDict d) = list_all (\<lambda>(k, v). packable v) d"
| "packable v = True"

text \<open>
  The msgpack library is no part of the sources, and \<open>packb\<close> is a parameter of everything
  that calls it. \<open>packb_within\<close> is a \<open>packb\<close> that raises where msgpack raises on an int
  and returns otherwise; the bytes it returns are those of its parameter \<open>encode\<close>.
\<close>

definition packb_within :: "(pyval \<Rightarrow> bytes) \<Rightarrow> pyval \<Rightarrow> exn + bytes" where
  "packb_within encode v =
     (if packable v then Inr (encode v)
      else Inl (OverflowError ''Integer value out of range''))"

section \<open>broker.py\<close>

text \<open>
  Modelled from the spec: the class Node (rec/dtn/node.py), which Broker extends, and the
  class JobInfo (rec/dtn/job.py) are not among the sources. Of the state of a node the record
  has \<open>node_id\<close>, \<open>node_type\<close> and \<open>broker\<close>, which are what \<^verbatim>\<open>Broker.__init__\<close> hands to
  \<^verbatim>\<open>Node.__init__\<close> (the own EID, the role and the discovered broker of the spec); a JobInfo
  is a value of the type parameter. \<open>completed_jobs\<close> (a set) and \<open>queued_jobs\<close> (a queue) are held as what
  iterating over them gives; the Broker of the sources only reads them. The reader/writer
  lock and the suspension points of the coroutines are not part of the state: a handler runs
  from its call to its return.
\<close>

record 'j Broker =
  node_id :: EID
  node_type :: number
  broker :: "EID option"
  completed_jobs :: "'j list"
  queued_jobs :: "'j list"
  discovered_nodes :: "number \<rightharpoonup> EID set"

text \<open>\<^verbatim>\<open>Broker.__init__\<close>.\<close>

definition Broker_init :: "EID \<Rightarrow> 'j Broker" where
  "Broker_init nid =
     \<lparr> node_id = nid,
       node_type = BROKER,
       broker = Some nid,
       completed_jobs = [],
       queued_jobs = [],
       discovered_nodes =
         [BROKER \<mapsto> {}, CLIENT \<mapsto> {}, EXECUTOR \<mapsto> {}, DATASTORE \<mapsto> {}] \<rparr>"

text \<open>
  \<^verbatim>\<open>Broker._handle_job_query\<close>. \<open>dictify_job_infos\<close> (rec/dtn/job.py) and \<open>packb\<close> (the msgpack
  library) are parameters; \<open>packb\<close> may raise, \<open>dictify_job_infos\<close> is a function of the
  jobs alone. The result is the reply or the exception, with the state the handler leaves.
\<close>

definition handle_job_query ::
  "('j list \<Rightarrow> pyval) \<Rightarrow> (pyval \<Rightarrow> exn + bytes) \<Rightarrow> 'j Broker \<Rightarrow> BundleData
     \<Rightarrow> (exn + BundleData) \<times> 'j Broker" where
  "handle_job_query dictify_job_infos packb self bundle =
     (let jobs = PDict [(''completed'', dictify_job_infos (completed_jobs self)),
                        (''queued'', dictify_job_infos (queued_jobs self))]
      in case packb jobs of
           Inl err \<Rightarrow> (Inl err, self)
         | Inr jobs_bytes \<Rightarrow>
             (new_BundleData
                \<lparr> type = JOB_LIST,
                  source = node_id self,
                  destination = source bundle,
                  payload = jobs_bytes,
                  success = True,
                  error = [],
                  node_type = 0,
                  submitter = submitter bundle,
                  named_data = None \<rparr>,
              self))"

text \<open>
  \<^verbatim>\<open>Broker._handle_discovery\<close>. \<^verbatim>\<open>self.discovered_nodes[k]\<close> finds the key that equals the
  number \<open>k\<close> and raises KeyError when the dictionary has no such key. In the BROKER_REQUEST
  case the set is updated before the reply
  is built, so the update stays when building the reply raises.
\<close>

definition handle_discovery ::
  "'j Broker \<Rightarrow> BundleData \<Rightarrow> (exn + BundleData option) \<times> 'j Broker" where
  "handle_discovery self bundle =
     (if type bundle = BROKER_ANNOUNCE then
        (if source bundle \<noteq> node_id self then
           (case discovered_nodes self BROKER of
              None \<Rightarrow> (Inl (KeyError ''NodeType.BROKER''), self)
            | Some nodes \<Rightarrow>
                (Inr None,
                 self\<lparr>discovered_nodes :=
                        (discovered_nodes self)(BROKER \<mapsto> insert (source bundle) nodes)\<rparr>))
         else (Inr None, self))
      else if type bundle = BROKER_REQUEST then
        (case discovered_nodes self (BundleData.node_type bundle) of
           None \<Rightarrow> (Inl (KeyError ''bundle.node_type''), self)
         | Some nodes \<Rightarrow>
             (let self' =
                    self\<lparr>discovered_nodes :=
                           (discovered_nodes self)
                             (BundleData.node_type bundle \<mapsto> insert (source bundle) nodes)\<rparr>
              in (case new_BundleData
                         \<lparr> type = BROKER_ACK,
                           source = node_id self,
                           destination = source bundle,
                           payload = [],
                           success = True,
                           error = [],
                           node_type = Broker.node_type self,
                           submitter = None,
                           named_data = None \<rparr> of
                    Inl err \<Rightarrow> (Inl err, self')
                  | Inr reply \<Rightarrow> (Inr (Some reply), self'))))
      else (Inr None, self))"

text \<open>\<^verbatim>\<open>Broker._handle_bundle\<close>.\<close>

definition handle_bundle ::
  "('j list \<Rightarrow> pyval) \<Rightarrow> (pyval \<Rightarrow> exn + bytes) \<Rightarrow> 'j Broker \<Rightarrow> BundleData
     \<Rightarrow> (exn + BundleData option) \<times> 'j Broker" where
  "handle_bundle dictify_job_infos packb self bundle =
     (if type bundle = JOB_QUERY then
        (case handle_job_query dictify_job_infos packb self bundle of
           (Inl err, self') \<Rightarrow> (Inl err, self')
         | (Inr reply, self') \<Rightarrow> (Inr (Some reply), self'))
      else if BROKER_ANNOUNCE \<le> type bundle \<and> type bundle \<le> BROKER_ACK then
        handle_discovery self bundle
      else (Inr None, self))"

text \<open>
  The \<^verbatim>\<open>for bundle in bundles\<close> loop of \<^verbatim>\<open>Broker._handle_bundles\<close>, with the replies
  collected so far. An exception of \<^verbatim>\<open>_handle_bundle\<close> leaves the loop.
\<close>

fun handle_each ::
  "('j list \<Rightarrow> pyval) \<Rightarrow> (pyval \<Rightarrow> exn + bytes) \<Rightarrow> 'j Broker \<Rightarrow> BundleData list
     \<Rightarrow> BundleData list \<Rightarrow> (exn + BundleData list) \<times> 'j Broker" where
  "handle_each dictify_job_infos packb self [] replies = (Inr replies, self)"
| "handle_each dictify_job_infos packb self (bundle # bundles) replies =
     (case handle_bundle dictify_job_infos packb self bundle of
        (Inl err, self') \<Rightarrow> (Inl err, self')
      | (Inr None, self') \<Rightarrow> handle_each dictify_job_infos packb self' bundles replies
      | (Inr (Some reply), self') \<Rightarrow>
          handle_each dictify_job_infos packb self' bundles (replies @ [reply]))"

text \<open>
  One pass of the \<^verbatim>\<open>while True\<close> loop of \<^verbatim>\<open>Broker._handle_bundles\<close>, after its sleep.
  \<^verbatim>\<open>_get_new_bundles\<close> and \<^verbatim>\<open>_send_and_check\<close> belong to Node: the first is given by what it
  returns or raises, the second by the batch it is called with (\<open>sent\<close>); what
  \<^verbatim>\<open>_send_and_check\<close> does with the batch, and whether it raises, is not modelled. \<open>logged\<close>
  is the exception that reaches \<^verbatim>\<open>except Exception\<close>, after which the pass ends as any
  other.
\<close>

record cycle =
  sent :: "BundleData list option"
  logged :: "exn option"

definition handle_bundles ::
  "('j list \<Rightarrow> pyval) \<Rightarrow> (pyval \<Rightarrow> exn + bytes) \<Rightarrow> (exn + BundleData list) \<Rightarrow> 'j Broker
     \<Rightarrow> cycle \<times> 'j Broker" where
  "handle_bundles dictify_job_infos packb get_new_bundles self =
     (case get_new_bundles of
        Inl err \<Rightarrow> (\<lparr>sent = None, logged = Some err\<rparr>, self)
      | Inr bundles \<Rightarrow>
          (if bundles \<noteq> [] then
             (case handle_each dictify_job_infos packb self bundles [] of
                (Inl err, self') \<Rightarrow> (\<lparr>sent = None, logged = Some err\<rparr>, self')
              | (Inr replies, self') \<Rightarrow>
                  (if replies \<noteq> [] then (\<lparr>sent = Some replies, logged = None\<rparr>, self')
                   else (\<lparr>sent = None, logged = None\<rparr>, self')))
           else (\<lparr>sent = None, logged = None\<rparr>, self)))"

text \<open>
  The states a Broker goes through: the state after construction, and the state any call of
  \<^verbatim>\<open>_handle_bundle\<close> leaves, whatever the bundle and whether or not the call raises.
\<close>

inductive reachable ::
  "('j list \<Rightarrow> pyval) \<Rightarrow> (pyval \<Rightarrow> exn + bytes) \<Rightarrow> 'j Broker \<Rightarrow> bool"
  for dictify_job_infos :: "'j list \<Rightarrow> pyval" and packb :: "pyval \<Rightarrow> exn + bytes" where
  init: "reachable dictify_job_infos packb (Broker_init nid)"
| step: "reachable dictify_job_infos packb self
         \<Longrightarrow> handle_bundle dictify_job_infos packb self bundle = (res, self')
         \<Longrightarrow> reachable dictify_job_infos packb self'"

section \<open>Facts about the definitions\<close>

lemmas NodeType_defs = BROKER_def EXECUTOR_def DATASTORE_def CLIENT_def

lemmas MessageType_defs = REPLY_def REGISTER_def FETCH_def FETCH_REPLY_def CREATE_def

lemmas BundleType_defs =
  BROKER_ANNOUNCE_def BROKER_REQUEST_def BROKER_ACK_def
  JOB_SUBMIT_def JOB_RESULT_def JOB_QUERY_def JOB_LIST_def
  NDATA_PUT_def NDATA_GET_def NDATA_DEL_def

section \<open>Construction of BundleData\<close>

text \<open>
  C2. A BundleData that was constructed has \<open>success\<close> true exactly when \<open>error\<close> is the
  empty text; constructing one with \<open>success\<close> true and a non-empty \<open>error\<close>, or with
  \<open>success\<close> false and an empty \<open>error\<close>, raises InvalidBundleError.
\<close>

theorem BundleData_success_iff_no_error:
  "(new_BundleData b = Inr b' \<longrightarrow> (success b' \<longleftrightarrow> error b' = []))
   \<and> (success b \<and> error b \<noteq> [] \<longrightarrow> (\<exists>msg. new_BundleData b = Inl (InvalidBundleError msg)))
   \<and> (\<not> success b \<and> error b = [] \<longrightarrow> (\<exists>msg. new_BundleData b = Inl (InvalidBundleError msg)))"
  by (auto simp: new_BundleData_def BundleData_post_init_def split: if_splits option.splits)

lemma handle_job_query_state: "snd (handle_job_query D P self bundle) = self"
  by (simp add: handle_job_query_def Let_def split: sum.splits)

lemma handle_discovery_frame:
  "handle_discovery self bundle = (res, self') \<Longrightarrow>
     node_id self' = node_id self \<and> Broker.node_type self' = Broker.node_type self
     \<and> dom (discovered_nodes self') = dom (discovered_nodes self)
     \<and> completed_jobs self' = completed_jobs self \<and> queued_jobs self' = queued_jobs self"
  by (auto simp: handle_discovery_def Let_def split: if_splits option.splits sum.splits)

lemma handle_bundle_frame:
  "handle_bundle D P self bundle = (res, self') \<Longrightarrow>
     node_id self' = node_id self \<and> Broker.node_type self' = Broker.node_type self
     \<and> dom (discovered_nodes self') = dom (discovered_nodes self)
     \<and> completed_jobs self' = completed_jobs self \<and> queued_jobs self' = queued_jobs self"
proof -
  assume h: "handle_bundle D P self bundle = (res, self')"
  show ?thesis
  proof (cases "type bundle = JOB_QUERY")
    case True
    with h have "self' = snd (handle_job_query D P self bundle)"
      by (auto simp: handle_bundle_def split: prod.splits sum.splits)
    then show ?thesis by (simp add: handle_job_query_state)
  next
    case False
    with h have "handle_discovery self bundle = (res, self') \<or> self' = self"
      by (auto simp: handle_bundle_def split: if_splits)
    then show ?thesis using handle_discovery_frame by blast
  qed
qed

lemma reachable_inv:
  "reachable D P self \<Longrightarrow>
     Broker.node_type self = BROKER
     \<and> dom (discovered_nodes self) = {BROKER, EXECUTOR, DATASTORE, CLIENT}"
proof (induction rule: reachable.induct)
  case (init nid)
  show ?case by (auto simp: Broker_init_def NodeType_defs split: if_splits)
next
  case (step self b res self')
  then show ?case using handle_bundle_frame[of D P self b res self'] by simp
qed



lemma map_of_dict_set:
  "map_of (dict_set d key val) k = (if k = key then Some val else map_of d k)"
  by (induction d key val rule: dict_set.induct) auto

lemma keys_dict_set:
  "set (map fst (dict_set d key val)) = insert key (set (map fst d))"
  by (induction d key val rule: dict_set.induct) auto


lemma map_of_filter_values:
  "distinct (map fst d) \<Longrightarrow>
   map_of (filter (\<lambda>(key, val). P val) d) k =
     (case map_of d k of None \<Rightarrow> None | Some val \<Rightarrow> if P val then Some val else None)"
proof (induction d)
  case Nil
  show ?case by simp
next
  case (Cons kv d)
  obtain k' v' where kv: "kv = (k', v')" by (cases kv)
  from Cons.prems kv have nk: "k' \<notin> fst ` set d" and dd: "distinct (map fst d)" by auto
  from nk have "map_of d k' = None" by (simp add: map_of_eq_None_iff)
  with Cons.IH[OF dd] kv show ?case by (auto split: option.splits)
qed

lemma distinct_BundleData_dict: "distinct (map fst (BundleData_dict b))"
  by (simp add: BundleData_dict_def)


lemma handle_each_append:
  "handle_each D P self (pre @ rest) acc =
     (case handle_each D P self pre acc of
        (Inl err, s) \<Rightarrow> (Inl err, s)
      | (Inr replies, s) \<Rightarrow> handle_each D P s rest replies)"
  by (induction pre arbitrary: self acc) (auto split: prod.splits sum.splits option.splits)

text \<open>
  C4, as the code has it. When handling a bundle of the batch raises, after the bundles before
  it were handled, the cycle logs that exception and submits nothing, the replies to the
  bundles before it included; the state is the one the raising call left, so no bundle after
  it was handled.
\<close>

theorem handle_bundles_error_ends_cycle:
  assumes "handle_each D P self pre [] = (Inr replies, s1)"
    and "handle_bundle D P s1 b = (Inl err, s2)"
  shows "handle_bundles D P (Inr (pre @ b # post)) self = (\<lparr>sent = None, logged = Some err\<rparr>, s2)"
  using assms by (simp add: handle_bundles_def handle_each_append)

text \<open>
  C5, as the code has it. A broker with a truthy EID of its own, handed a constructed
  JOB_QUERY bundle, returns
  one bundle when msgpack packs the map of its jobs: a JOB_LIST from the broker to the source
  of the query, with the submitter of the query, whose payload is the packed map
  \<open>{completed: ..., queued: ...}\<close> of the dictified jobs the broker holds.
\<close>

theorem job_query_reply:
  assumes "eid_bool (node_id self)"
    and "BundleData_post_init bundle = None"
    and "type bundle = JOB_QUERY"
    and "packb (PDict [(''completed'', dictify_job_infos (completed_jobs self)),
                       (''queued'', dictify_job_infos (queued_jobs self))]) = Inr jobs_bytes"
  shows "handle_bundle dictify_job_infos packb self bundle =
     (Inr (Some \<lparr> type = JOB_LIST, source = node_id self, destination = source bundle,
                  payload = jobs_bytes, success = True, error = [], node_type = 0,
                  submitter = submitter bundle, named_data = None \<rparr>),
      self)"
proof -
  from assms(2,3) have s: "py_bool (submitter_val (submitter bundle))" and src: "eid_bool (source bundle)"
    by (auto simp: BundleData_post_init_def split: if_splits)
  have "BundleData_post_init
          \<lparr> type = JOB_LIST, source = node_id self, destination = source bundle,
            payload = jobs_bytes, success = True, error = [], node_type = 0,
            submitter = submitter bundle, named_data = None \<rparr> = None"
    using assms(1) s src by (simp add: BundleData_post_init_def BundleType_defs)
  then show ?thesis
    using assms(3,4) by (simp add: handle_bundle_def handle_job_query_def new_BundleData_def)
qed

text \<open>
  C9. Handling a JOB_QUERY bundle leaves the state of the broker as it was, whether the call
  returns or raises: the completed jobs, the queued jobs and the discovered nodes with it.
\<close>

theorem job_query_is_read_only:
  assumes "type bundle = JOB_QUERY"
    and "handle_bundle D P self bundle = (res, self')"
  shows "self' = self"
proof -
  from assms have "self' = snd (handle_job_query D P self bundle)"
    by (auto simp: handle_bundle_def split: prod.splits sum.splits)
  then show ?thesis by (simp add: handle_job_query_state)
qed

text \<open>
  C3. A broker in a state it can reach, with a truthy EID of its own, handed a constructed
  BROKER_REQUEST bundle whose \<open>node_type\<close> is one of the four roles, adds the source of the
  bundle to the set of discovered nodes kept under that role, changes nothing else, and
  returns one bundle: a BROKER_ACK from the broker to the source of the request, with
  \<open>node_type\<close> BROKER.
\<close>

theorem broker_request_is_acknowledged:
  assumes "reachable D P self"
    and "eid_bool (node_id self)"
    and "BundleData_post_init bundle = None"
    and "type bundle = BROKER_REQUEST"
    and "BundleData.node_type bundle \<in> {BROKER, EXECUTOR, DATASTORE, CLIENT}"
  shows "\<exists>nodes. discovered_nodes self (BundleData.node_type bundle) = Some nodes
     \<and> handle_discovery self bundle =
         (Inr (Some \<lparr> type = BROKER_ACK, source = node_id self, destination = source bundle,
                      payload = [], success = True, error = [], node_type = BROKER,
                      submitter = None, named_data = None \<rparr>),
          self\<lparr>discovered_nodes :=
                 (discovered_nodes self)
                   (BundleData.node_type bundle \<mapsto> insert (source bundle) nodes)\<rparr>)
     \<and> handle_bundle D P self bundle = handle_discovery self bundle"
proof -
  note nt = assms(5)
  from assms(3) have src: "eid_bool (source bundle)"
    by (auto simp: BundleData_post_init_def split: if_splits)
  from reachable_inv[OF assms(1)] have role: "Broker.node_type self = BROKER"
    and keys: "dom (discovered_nodes self) = {BROKER, EXECUTOR, DATASTORE, CLIENT}" by simp_all
  from nt keys obtain nodes where n: "discovered_nodes self (BundleData.node_type bundle) = Some nodes"
    by blast
  have ack: "BundleData_post_init
          \<lparr> type = BROKER_ACK, source = node_id self, destination = source bundle,
            payload = [], success = True, error = [], node_type = BROKER,
            submitter = None, named_data = None \<rparr> = None"
    using assms(2) src by (simp add: BundleData_post_init_def BundleType_defs NodeType_defs)
  have "handle_discovery self bundle =
         (Inr (Some \<lparr> type = BROKER_ACK, source = node_id self, destination = source bundle,
                      payload = [], success = True, error = [], node_type = BROKER,
                      submitter = None, named_data = None \<rparr>),
          self\<lparr>discovered_nodes :=
                 (discovered_nodes self)
                   (BundleData.node_type bundle \<mapsto> insert (source bundle) nodes)\<rparr>)"
    using assms(4) n role ack
    by (simp add: handle_discovery_def new_BundleData_def BundleType_defs)
  moreover have "handle_bundle D P self bundle = handle_discovery self bundle"
    using assms(4) by (simp add: handle_bundle_def BundleType_defs)
  ultimately show ?thesis using n by blast
qed

text \<open>
  C6. A broker in a state it can reach, handed a BROKER_ANNOUNCE bundle, returns no bundle;
  when the source of the bundle is not the broker itself it adds that source to the set of
  discovered brokers, and otherwise it leaves its state as it was.
\<close>

theorem broker_announce_records_other_broker:
  assumes "reachable D P self"
    and "type bundle = BROKER_ANNOUNCE"
  shows "\<exists>nodes. discovered_nodes self BROKER = Some nodes
     \<and> handle_discovery self bundle =
         (Inr None,
          if source bundle \<noteq> node_id self
          then self\<lparr>discovered_nodes :=
                      (discovered_nodes self)(BROKER \<mapsto> insert (source bundle) nodes)\<rparr>
          else self)
     \<and> handle_bundle D P self bundle = handle_discovery self bundle"
proof -
  from reachable_inv[OF assms(1)]
  have keys: "dom (discovered_nodes self) = {BROKER, EXECUTOR, DATASTORE, CLIENT}" by simp
  then obtain nodes where n: "discovered_nodes self BROKER = Some nodes" by blast
  have "handle_bundle D P self bundle = handle_discovery self bundle"
    using assms(2) by (simp add: handle_bundle_def BundleType_defs)
  then show ?thesis using assms(2) n by (simp add: handle_discovery_def)
qed


lemmas broker_eval =
  handle_bundles_def handle_bundle_def handle_discovery_def handle_job_query_def
  new_BundleData_def BundleData_post_init_def Broker_init_def eid_bool_def
  submitter_val_def named_val_def BundleType_defs NodeType_defs
  packb_within_def MSGPACK_MAXINT_def

theorem BundleData_success_iff_no_error_witness:
  "new_BundleData
     \<lparr> type = JOB_SUBMIT, source = ''dtn://a/'', destination = ''dtn://b/'', payload = [],
       success = False, error = ''disk full'', node_type = 0, submitter = None,
       named_data = None \<rparr>
   = Inr \<lparr> type = JOB_SUBMIT, source = ''dtn://a/'', destination = ''dtn://b/'', payload = [],
           success = False, error = ''disk full'', node_type = 0, submitter = None,
           named_data = None \<rparr>
   \<and> (\<exists>msg. new_BundleData
          \<lparr> type = JOB_SUBMIT, source = ''dtn://a/'', destination = ''dtn://b/'', payload = [],
            success = True, error = ''disk full'', node_type = 0, submitter = None,
            named_data = None \<rparr> = Inl (InvalidBundleError msg))
   \<and> (\<exists>msg. new_BundleData
          \<lparr> type = JOB_SUBMIT, source = ''dtn://a/'', destination = ''dtn://b/'', payload = [],
            success = False, error = [], node_type = 0, submitter = None,
            named_data = None \<rparr> = Inl (InvalidBundleError msg))"
proof -
  let ?ok = "\<lparr> type = JOB_SUBMIT, source = ''dtn://a/'', destination = ''dtn://b/'', payload = [],
       success = False, error = ''disk full'', node_type = 0, submitter = None,
       named_data = None \<rparr>"
  let ?both = "?ok\<lparr>success := True\<rparr>"
  let ?neither = "?ok\<lparr>error := []\<rparr>"
  have 1: "new_BundleData ?ok = Inr ?ok" by (simp add: broker_eval)
  have 2: "success ?both \<and> error ?both \<noteq> []" by simp
  have 3: "\<not> success ?neither \<and> error ?neither = []" by simp
  from 2 BundleData_success_iff_no_error[of ?both]
  have "\<exists>msg. new_BundleData ?both = Inl (InvalidBundleError msg)" by blast
  moreover from 3 BundleData_success_iff_no_error[of ?neither]
  have "\<exists>msg. new_BundleData ?neither = Inl (InvalidBundleError msg)" by blast
  ultimately show ?thesis using 1 by simp
qed

theorem broker_request_is_acknowledged_witness:
  "handle_discovery (Broker_init ''dtn://b1/'' :: unit Broker)
     \<lparr> type = BROKER_REQUEST, source = ''dtn://x/'', destination = ''dtn://b1/'',
       payload = [], success = True, error = [], node_type = DATASTORE,
       submitter = None, named_data = None \<rparr>
   = (Inr (Some \<lparr> type = BROKER_ACK, source = ''dtn://b1/'', destination = ''dtn://x/'',
                  payload = [], success = True, error = [], node_type = BROKER,
                  submitter = None, named_data = None \<rparr>),
      (Broker_init ''dtn://b1/'')
        \<lparr>discovered_nodes :=
           (discovered_nodes (Broker_init ''dtn://b1/'' :: unit Broker))
             (DATASTORE \<mapsto> {''dtn://x/''})\<rparr>)"
proof -
  let ?self = "Broker_init ''dtn://b1/'' :: unit Broker"
  let ?req = "\<lparr> type = BROKER_REQUEST, source = ''dtn://x/'', destination = ''dtn://b1/'',
       payload = [], success = True, error = [], node_type = DATASTORE,
       submitter = None, named_data = None \<rparr>"
  have r: "reachable (\<lambda>_. PList []) (\<lambda>_. Inr []) ?self" by (rule reachable.init)
  have e: "eid_bool (node_id ?self)" by (simp add: broker_eval)
  have v: "BundleData_post_init ?req = None" by (simp add: broker_eval)
  have t: "type ?req = BROKER_REQUEST" by simp
  have k: "BundleData.node_type ?req \<in> {BROKER, EXECUTOR, DATASTORE, CLIENT}" by simp
  from broker_request_is_acknowledged[OF r e v t k]
  obtain nodes where n: "discovered_nodes ?self (BundleData.node_type ?req) = Some nodes"
    and h: "handle_discovery ?self ?req =
         (Inr (Some \<lparr> type = BROKER_ACK, source = node_id ?self, destination = source ?req,
                      payload = [], success = True, error = [], node_type = BROKER,
                      submitter = None, named_data = None \<rparr>),
          ?self\<lparr>discovered_nodes :=
                 (discovered_nodes ?self)
                   (BundleData.node_type ?req \<mapsto> insert (source ?req) nodes)\<rparr>)"
    by blast
  from n have "nodes = {}" by (simp add: Broker_init_def NodeType_defs)
  with h show ?thesis by (simp add: Broker_init_def)
qed

section \<open>The theorems at concrete inputs\<close>

theorem job_query_reply_witness:
  "handle_bundle PList (\<lambda>v. Inr ''packed'')
     ((Broker_init ''dtn://b1/'')\<lparr>queued_jobs := [PDict [(''wasm_module'', PStr ''m'')]]\<rparr>)
     \<lparr> type = JOB_QUERY, source = ''dtn://c/'', destination = ''dtn://b1/'',
       payload = [], success = True, error = [], node_type = 0,
       submitter = Some ''dtn://c/'', named_data = None \<rparr>
   = (Inr (Some \<lparr> type = JOB_LIST, source = ''dtn://b1/'', destination = ''dtn://c/'',
                  payload = ''packed'', success = True, error = [], node_type = 0,
                  submitter = Some ''dtn://c/'', named_data = None \<rparr>),
      (Broker_init ''dtn://b1/'')\<lparr>queued_jobs := [PDict [(''wasm_module'', PStr ''m'')]]\<rparr>)"
proof -
  let ?self = "(Broker_init ''dtn://b1/'')\<lparr>queued_jobs := [PDict [(''wasm_module'', PStr ''m'')]]\<rparr>"
  let ?q = "\<lparr> type = JOB_QUERY, source = ''dtn://c/'', destination = ''dtn://b1/'',
       payload = [], success = True, error = [], node_type = 0,
       submitter = Some ''dtn://c/'', named_data = None \<rparr>"
  have e: "eid_bool (node_id ?self)" by (simp add: broker_eval)
  have v: "BundleData_post_init ?q = None" by (simp add: broker_eval)
  have t: "type ?q = JOB_QUERY" by simp
  have p: "(\<lambda>v. Inr ''packed'')
             (PDict [(''completed'', PList (completed_jobs ?self)),
                     (''queued'', PList (queued_jobs ?self))]) = Inr ''packed''" by simp
  from job_query_reply[of ?self ?q "\<lambda>v. Inr ''packed''" PList "''packed''", OF e v t p]
  show ?thesis by (simp add: Broker_init_def)
qed

theorem job_query_is_read_only_witness:
  "snd (handle_bundle PList (\<lambda>v. Inr ''packed'')
          ((Broker_init ''dtn://b1/'')\<lparr>queued_jobs := [PDict [(''wasm_module'', PStr ''m'')]]\<rparr>)
          \<lparr> type = JOB_QUERY, source = ''dtn://c/'', destination = ''dtn://b1/'',
            payload = [], success = True, error = [], node_type = 0,
            submitter = Some ''dtn://c/'', named_data = None \<rparr>)
   = (Broker_init ''dtn://b1/'')\<lparr>queued_jobs := [PDict [(''wasm_module'', PStr ''m'')]]\<rparr>"
proof -
  let ?self = "(Broker_init ''dtn://b1/'')\<lparr>queued_jobs := [PDict [(''wasm_module'', PStr ''m'')]]\<rparr>"
  let ?q = "\<lparr> type = JOB_QUERY, source = ''dtn://c/'', destination = ''dtn://b1/'',
       payload = [], success = True, error = [], node_type = 0,
       submitter = Some ''dtn://c/'', named_data = None \<rparr>"
  let ?r = "handle_bundle PList (\<lambda>v. Inr ''packed'') ?self ?q"
  have t: "type ?q = JOB_QUERY" by simp
  have h: "?r = (fst ?r, snd ?r)" by simp
  from job_query_is_read_only[OF t h] show ?thesis .
qed

theorem broker_announce_records_other_broker_witness:
  "handle_discovery (Broker_init ''dtn://b1/'' :: unit Broker)
     \<lparr> type = BROKER_ANNOUNCE, source = ''dtn://b2/'', destination = ''dtn://~broadcast/'',
       payload = [], success = True, error = [], node_type = BROKER,
       submitter = None, named_data = None \<rparr>
   = (Inr None,
      (Broker_init ''dtn://b1/'')
        \<lparr>discovered_nodes :=
           (discovered_nodes (Broker_init ''dtn://b1/'' :: unit Broker))
             (BROKER \<mapsto> {''dtn://b2/''})\<rparr>)
   \<and> handle_discovery (Broker_init ''dtn://b1/'' :: unit Broker)
     \<lparr> type = BROKER_ANNOUNCE, source = ''dtn://b1/'', destination = ''dtn://~broadcast/'',
       payload = [], success = True, error = [], node_type = BROKER,
       submitter = None, named_data = None \<rparr>
   = (Inr None, Broker_init ''dtn://b1/'')"
proof -
  let ?self = "Broker_init ''dtn://b1/'' :: unit Broker"
  let ?other = "\<lparr> type = BROKER_ANNOUNCE, source = ''dtn://b2/'', destination = ''dtn://~broadcast/'',
       payload = [], success = True, error = [], node_type = BROKER,
       submitter = None, named_data = None \<rparr>"
  let ?own = "?other\<lparr>source := ''dtn://b1/''\<rparr>"
  have r: "reachable (\<lambda>_. PList []) (\<lambda>_. Inr []) ?self" by (rule reachable.init)
  have t1: "type ?other = BROKER_ANNOUNCE" and t2: "type ?own = BROKER_ANNOUNCE" by simp_all
  from broker_announce_records_other_broker[OF r t1]
  obtain nodes where n: "discovered_nodes ?self BROKER = Some nodes"
    and h: "handle_discovery ?self ?other =
         (Inr None,
          if source ?other \<noteq> node_id ?self
          then ?self\<lparr>discovered_nodes :=
                      (discovered_nodes ?self)(BROKER \<mapsto> insert (source ?other) nodes)\<rparr>
          else ?self)"
    by blast
  from n have e: "nodes = {}" by (simp add: Broker_init_def NodeType_defs)
  from broker_announce_records_other_broker[OF r t2]
  have h2: "handle_discovery ?self ?own = (Inr None, ?self)"
    by (auto simp: Broker_init_def)
  from h e h2 show ?thesis by (simp add: Broker_init_def)
qed

text \<open>
  C5 as the spec states it fails where another node sends the query of a submitter: the
  reply goes to the node that sent the query, not to the submitter it names. The broker holds
  no jobs, and the payload is what msgpack packs the map of no jobs into.
\<close>

theorem job_query_reply_destination_counterexample:
  "handle_bundle PList
     (packb_within
        (\<lambda>v. [CHR 0x82, CHR 0xA9] @ ''completed'' @ [CHR 0x90, CHR 0xA6] @ ''queued''
               @ [CHR 0x90]))
     (Broker_init ''dtn://b1/'' :: pyval Broker)
     \<lparr> type = JOB_QUERY, source = ''dtn://relay/'', destination = ''dtn://b1/'',
         payload = [], success = True, error = [], node_type = 0,
         submitter = Some ''dtn://c/'', named_data = None \<rparr>
   = (Inr (Some \<lparr> type = JOB_LIST, source = ''dtn://b1/'', destination = ''dtn://relay/'',
         payload = [CHR 0x82, CHR 0xA9] @ ''completed'' @ [CHR 0x90, CHR 0xA6] @ ''queued''
                   @ [CHR 0x90],
         success = True, error = [], node_type = 0,
         submitter = Some ''dtn://c/'', named_data = None \<rparr>),
      Broker_init ''dtn://b1/'')
   \<and> destination \<lparr> type = JOB_LIST, source = ''dtn://b1/'', destination = ''dtn://relay/'',
         payload = [CHR 0x82, CHR 0xA9] @ ''completed'' @ [CHR 0x90, CHR 0xA6] @ ''queued''
                   @ [CHR 0x90],
         success = True, error = [], node_type = 0,
         submitter = Some ''dtn://c/'', named_data = None \<rparr>
       \<noteq> ''dtn://c/''"
  by (simp add: broker_eval)



theorem handle_bundles_error_ends_cycle_witness:
  "handle_bundles PList (packb_within (\<lambda>v. []))
     (Inr ([\<lparr> type = BROKER_ANNOUNCE, source = ''dtn://b2/'', destination = ''dtn://~broadcast/'',
         payload = [], success = True, error = [], node_type = BROKER,
         submitter = None, named_data = None \<rparr>]
           @ \<lparr> type = JOB_QUERY, source = ''dtn://c/'', destination = ''dtn://b1/'',
         payload = [], success = True, error = [], node_type = 0,
         submitter = Some ''dtn://c/'', named_data = None \<rparr>
           # [\<lparr> type = BROKER_REQUEST, source = ''dtn://x/'', destination = ''dtn://b1/'',
         payload = [], success = True, error = [], node_type = DATASTORE,
         submitter = None, named_data = None \<rparr>]))
     ((Broker_init ''dtn://b1/'')\<lparr>queued_jobs := [PDict [(''capabilities'', PDict [(''cpu_cores'', PInt 18446744073709551616)])]]\<rparr>)
   = (\<lparr>sent = None, logged = Some (OverflowError ''Integer value out of range'')\<rparr>,
      ((Broker_init ''dtn://b1/'')\<lparr>queued_jobs := [PDict [(''capabilities'', PDict [(''cpu_cores'', PInt 18446744073709551616)])]]\<rparr>)
        \<lparr>discovered_nodes :=
           (discovered_nodes (Broker_init ''dtn://b1/'' :: pyval Broker))(BROKER \<mapsto> {''dtn://b2/''})\<rparr>)"
proof -
  let ?self = "((Broker_init ''dtn://b1/'')\<lparr>queued_jobs := [PDict [(''capabilities'', PDict [(''cpu_cores'', PInt 18446744073709551616)])]]\<rparr>)"
  let ?P = "(packb_within (\<lambda>v. []))"
  let ?a2 = "\<lparr> type = BROKER_ANNOUNCE, source = ''dtn://b2/'', destination = ''dtn://~broadcast/'',
         payload = [], success = True, error = [], node_type = BROKER,
         submitter = None, named_data = None \<rparr>"
  let ?q = "\<lparr> type = JOB_QUERY, source = ''dtn://c/'', destination = ''dtn://b1/'',
         payload = [], success = True, error = [], node_type = 0,
         submitter = Some ''dtn://c/'', named_data = None \<rparr>"
  let ?s1 = "?self\<lparr>discovered_nodes := (discovered_nodes ?self)(BROKER \<mapsto> {''dtn://b2/''})\<rparr>"
  have 1: "handle_each PList ?P ?self [?a2] [] = (Inr [], ?s1)"
    by (simp add: broker_eval)
  have 2: "handle_bundle PList ?P ?s1 ?q =
             (Inl (OverflowError ''Integer value out of range''), ?s1)"
    by (simp add: broker_eval)
  from handle_bundles_error_ends_cycle[OF 1 2] show ?thesis by (simp add: Broker_init_def)
qed

text \<open>
  C4 as the spec states it fails. A broker that holds a queued job with 2^64 CPU cores, one
  more than \<^verbatim>\<open>MSGPACK_MAXINT\<close>, is handed a BROKER_REQUEST, a JOB_QUERY and a BROKER_ANNOUNCE
  in one batch. msgpack raises OverflowError on the map of the jobs. The acknowledgement of
  the request was generated and is not submitted, and the announcement is not handled: its
  source is not among the discovered brokers, where handling it would have put it.
\<close>

theorem handle_bundles_error_isolation_counterexample:
  "handle_bundles PList (packb_within (\<lambda>v. []))
     (Inr [\<lparr> type = BROKER_REQUEST, source = ''dtn://x/'', destination = ''dtn://b1/'',
         payload = [], success = True, error = [], node_type = DATASTORE,
         submitter = None, named_data = None \<rparr>,
           \<lparr> type = JOB_QUERY, source = ''dtn://c/'', destination = ''dtn://b1/'',
         payload = [], success = True, error = [], node_type = 0,
         submitter = Some ''dtn://c/'', named_data = None \<rparr>,
           \<lparr> type = BROKER_ANNOUNCE, source = ''dtn://b2/'', destination = ''dtn://~broadcast/'',
         payload = [], success = True, error = [], node_type = BROKER,
         submitter = None, named_data = None \<rparr>])
     ((Broker_init ''dtn://b1/'')\<lparr>queued_jobs := [PDict [(''capabilities'', PDict [(''cpu_cores'', PInt 18446744073709551616)])]]\<rparr>)
   = (\<lparr>sent = None, logged = Some (OverflowError ''Integer value out of range'')\<rparr>,
      ((Broker_init ''dtn://b1/'')\<lparr>queued_jobs := [PDict [(''capabilities'', PDict [(''cpu_cores'', PInt 18446744073709551616)])]]\<rparr>)
        \<lparr>discovered_nodes :=
           (discovered_nodes (Broker_init ''dtn://b1/'' :: pyval Broker))(DATASTORE \<mapsto> {''dtn://x/''})\<rparr>)
   \<and> fst (handle_bundle PList (packb_within (\<lambda>v. []))
            ((Broker_init ''dtn://b1/'')\<lparr>queued_jobs := [PDict [(''capabilities'', PDict [(''cpu_cores'', PInt 18446744073709551616)])]]\<rparr>)
            \<lparr> type = BROKER_REQUEST, source = ''dtn://x/'', destination = ''dtn://b1/'',
         payload = [], success = True, error = [], node_type = DATASTORE,
         submitter = None, named_data = None \<rparr>)
     = Inr (Some \<lparr> type = BROKER_ACK, source = ''dtn://b1/'', destination = ''dtn://x/'',
         payload = [], success = True, error = [], node_type = BROKER,
         submitter = None, named_data = None \<rparr>)
   \<and> snd (handle_bundle PList (packb_within (\<lambda>v. []))
            ((Broker_init ''dtn://b1/'')\<lparr>queued_jobs := [PDict [(''capabilities'', PDict [(''cpu_cores'', PInt 18446744073709551616)])]]\<rparr>)
            \<lparr> type = BROKER_ANNOUNCE, source = ''dtn://b2/'', destination = ''dtn://~broadcast/'',
         payload = [], success = True, error = [], node_type = BROKER,
         submitter = None, named_data = None \<rparr>)
     = ((Broker_init ''dtn://b1/'')\<lparr>queued_jobs := [PDict [(''capabilities'', PDict [(''cpu_cores'', PInt 18446744073709551616)])]]\<rparr>)
        \<lparr>discovered_nodes :=
           (discovered_nodes (Broker_init ''dtn://b1/'' :: pyval Broker))(BROKER \<mapsto> {''dtn://b2/''})\<rparr>"
  by (simp add: broker_eval)

section \<open>serialize and deserialize\<close>

lemmas message_eval =
  deserialize_def constructor_for_def MESSAGE_CONSTRUCTORS_def andthen_def getitem_def
  typed_def bind_kwargs_def
  Reply_from_dict_def Register_from_dict_def Fetch_from_dict_def FetchReply_from_dict_def
  BundleCreate_from_dict_def BundleData_from_dict_def
  new_Reply_def new_Register_def new_Fetch_def new_FetchReply_def new_BundleCreate_def
  Reply_post_init_def Register_post_init_def Fetch_post_init_def FetchReply_post_init_def
  BundleCreate_post_init_def
  BundleData_dictify_def BundleData_dict_def serialize_def
  new_BundleData_def BundleData_post_init_def eid_bool_def submitter_val_def named_val_def
  num_val_def MessageType_defs BundleType_defs NodeType_defs

lemma constructor_for_None:
  "\<not> (py_eq_int tag REPLY \<or> py_eq_int tag REGISTER \<or> py_eq_int tag FETCH
        \<or> py_eq_int tag FETCH_REPLY \<or> py_eq_int tag CREATE)
   \<Longrightarrow> constructor_for tag = None"
  by (simp add: constructor_for_def MESSAGE_CONSTRUCTORS_def)

text \<open>
  C7, as the code has it. When the decoded value is a map whose \<open>type\<close> equals none of the
  five members of MessageType, \<open>deserialize\<close> yields no Message. It raises
  InvalidMessageError, the unknown-type error, when the tag is hashable (None, a bool, a
  number, a text or bytes), and TypeError when the tag is a list or a map, which the test
  \<^verbatim>\<open>not in MESSAGE_CONSTRUCTORS\<close> cannot hash.
\<close>

theorem deserialize_unknown_message_type:
  assumes "unpackb serialized = Inr (PDict d)"
    and "map_of d ''type'' = Some tag"
    and "\<not> (py_eq_int tag REPLY \<or> py_eq_int tag REGISTER \<or> py_eq_int tag FETCH
            \<or> py_eq_int tag FETCH_REPLY \<or> py_eq_int tag CREATE)"
  shows "deserialize unpackb serialized =
           Inl (if py_hashable tag
                then InvalidMessageError ''Message type {data_dict[type]} unknown''
                else TypeError ''unhashable type'')"
  using assms(1,2) constructor_for_None[OF assms(3)]
  by (simp add: deserialize_def getitem_def andthen_def)

theorem deserialize_unknown_message_type_witness:
  "deserialize (\<lambda>_. Inr (PDict [(''type'', PInt 6), (''success'', PBool True), (''error'', PStr [])]))
     ''bytes''
   = Inl (InvalidMessageError ''Message type {data_dict[type]} unknown'')"
proof -
  let ?d = "[(''type'', PInt 6), (''success'', PBool True), (''error'', PStr [])]"
  let ?u = "\<lambda>_ :: bytes. Inr (PDict ?d) :: exn + pyval"
  have 1: "?u ''bytes'' = Inr (PDict ?d)" by simp
  have 2: "map_of ?d ''type'' = Some (PInt 6)" by simp
  have 3: "\<not> (py_eq_int (PInt 6) REPLY \<or> py_eq_int (PInt 6) REGISTER \<or> py_eq_int (PInt 6) FETCH
            \<or> py_eq_int (PInt 6) FETCH_REPLY \<or> py_eq_int (PInt 6) CREATE)"
    by (simp add: MessageType_defs)
  from deserialize_unknown_message_type[of ?u "''bytes''" ?d "PInt 6", OF 1 2 3]
  show ?thesis by simp
qed

text \<open>
  C7 as the spec states it fails at the bytes msgpack decodes to the map \<open>{type: [1]}\<close>: the
  tag, a list, is no member of MessageType, and \<open>deserialize\<close> raises TypeError, not the
  unknown-type error.
\<close>

theorem deserialize_unknown_message_type_counterexample:
  "deserialize
     (\<lambda>s. if s = ([CHR 0x81, CHR 0xA4] @ ''type'' @ [CHR 0x91, CHR 0x01])
          then Inr (PDict [(''type'', PList [PInt 1])])
          else Inl (OutsideModel ''unpackb''))
     ([CHR 0x81, CHR 0xA4] @ ''type'' @ [CHR 0x91, CHR 0x01])
   = Inl (TypeError ''unhashable type'')
   \<and> \<not> (py_eq_int (PList [PInt 1]) REPLY \<or> py_eq_int (PList [PInt 1]) REGISTER
          \<or> py_eq_int (PList [PInt 1]) FETCH \<or> py_eq_int (PList [PInt 1]) FETCH_REPLY
          \<or> py_eq_int (PList [PInt 1]) CREATE)"
  by (simp add: deserialize_def getitem_def andthen_def)

lemma map_of_BundleData_dictify:
  "map_of (BundleData_dictify b) key =
       (if key = ''success'' then Some (PBool (success b))
        else case map_of (BundleData_dict b) key of
               None \<Rightarrow> None
             | Some val \<Rightarrow> if py_bool val then Some val else None)"
  unfolding BundleData_dictify_def Let_def
  by (simp add: map_of_dict_set map_of_filter_values[OF distinct_BundleData_dict])

lemma map_of_wire_form:
  "map_of (map (\<lambda>(k, v). (k, wire_form v)) d) key = map_option wire_form (map_of d key)"
  by (induction d) auto

lemma keys_wire_form: "map fst (map (\<lambda>(k, v). (k, wire_form v)) d) = map fst d"
  by (induction d) auto

lemma keys_BundleData_dictify:
  "set (map fst (BundleData_dictify b)) \<subseteq>
     set [''type'', ''source'', ''destination'', ''payload'', ''success'', ''error'',
          ''node_type'', ''submitter'', ''named_data'']"
proof -
  have "set (map fst (filter (\<lambda>(key, val). py_bool val) (BundleData_dict b)))
          \<subseteq> set (map fst (BundleData_dict b))" by auto
  then show ?thesis
    unfolding BundleData_dictify_def Let_def keys_dict_set
    by (auto simp: BundleData_dict_def)
qed

lemma key_in_dict: "key \<in> set (map fst d) \<longleftrightarrow> map_of d key \<noteq> None"
  by (simp add: map_of_eq_None_iff)

lemma py_bool_num_val: "py_bool (num_val q) = (q \<noteq> 0)"
  by (auto simp: num_val_def)

lemma as_number_num_val: "as_number (wire_form (num_val q)) = Some q"
  by (simp add: num_val_def)

lemma as_named_named_val: "as_named (wire_form (named_val n)) = Some n"
proof (cases n)
  case None
  then show ?thesis by (simp add: named_val_def)
next
  case (Some a)
  then show ?thesis
    by (cases a) (simp_all add: named_val_def list_all_iff comp_def)
qed

lemma BundleData_roundtrip:
  assumes valid: "BundleData_post_init b = None"
    and type: "type b \<noteq> 0"
    and sub: "submitter b = None \<or> py_bool (submitter_val (submitter b))"
    and named: "named_data b = None \<or> py_bool (named_val (named_data b))"
  shows "BundleData_from_dict (wire_form (PDict (BundleData_dictify b))) = Inr b"
proof -
  let ?d = "map (\<lambda>(k, v). (k, wire_form v)) (BundleData_dictify b)"
  have look: "\<And>key. map_of ?d key =
       (if key = ''success'' then Some (PBool (success b))
        else case map_of (BundleData_dict b) key of
               None \<Rightarrow> None
             | Some val \<Rightarrow> if py_bool val then Some (wire_form val) else None)"
    by (simp add: map_of_wire_form map_of_BundleData_dictify split: option.splits)
  from valid have src: "eid_bool (source b)" and dst: "eid_bool (destination b)"
    and ok: "success b \<longleftrightarrow> error b = []"
    by (auto simp: BundleData_post_init_def split: if_splits)
  have 1: "getitem ?d ''source'' = Inr (PStr (source b))"
    using src by (simp add: getitem_def look BundleData_dict_def)
  have 2: "getitem ?d ''destination'' = Inr (PStr (destination b))"
    using dst by (simp add: getitem_def look BundleData_dict_def)
  have 3: "map_of ?d ''submitter'' = map_option PStr (submitter b)"
    using sub by (cases "submitter b") (auto simp: look BundleData_dict_def submitter_val_def)
  have keys: "set (map fst ?d) \<subseteq>
     set [''type'', ''source'', ''destination'', ''payload'', ''success'', ''error'',
          ''node_type'', ''submitter'', ''named_data'']"
    unfolding keys_wire_form by (rule keys_BundleData_dictify)
  have req: "set [''type'', ''source'', ''destination''] \<subseteq> set (map fst ?d)"
  proof -
    have "map_of ?d ''type'' \<noteq> None" and "map_of ?d ''source'' \<noteq> None"
      and "map_of ?d ''destination'' \<noteq> None"
      using src dst type by (simp_all add: look BundleData_dict_def)
    then have "''type'' \<in> set (map fst ?d)" and "''source'' \<in> set (map fst ?d)"
      and "''destination'' \<in> set (map fst ?d)"
      using key_in_dict[of _ ?d] by blast+
    then show ?thesis by (simp del: set_map map_map)
  qed
  have 4: "bind_kwargs
                 [''type'', ''source'', ''destination'', ''payload'', ''success'', ''error'',
                  ''node_type'', ''submitter'', ''named_data'']
                 [''type'', ''source'', ''destination''] ?d = None"
    unfolding bind_kwargs_def using keys req by simp
  have 5: "typed ?d ''type'' as_int 0 = Inr (type b)"
    by (simp add: typed_def look BundleData_dict_def)
  have 6: "typed ?d ''payload'' as_bytes [] = Inr (payload b)"
    by (simp add: typed_def look BundleData_dict_def)
  have 7: "typed ?d ''success'' as_bool True = Inr (success b)"
    by (simp add: typed_def look)
  have 8: "typed ?d ''error'' as_str [] = Inr (error b)"
    by (simp add: typed_def look BundleData_dict_def)
  have 9: "typed ?d ''node_type'' as_number 0 = Inr (BundleData.node_type b)"
    by (simp add: typed_def look BundleData_dict_def py_bool_num_val as_number_num_val)
  have 10: "typed ?d ''named_data'' as_named None = Inr (named_data b)"
    using named as_named_named_val[of "named_data b"]
    by (auto simp: typed_def look BundleData_dict_def named_val_def)
  have s3: "(case map_of ?d ''submitter'' of
               None \<Rightarrow> Inr None
             | Some v \<Rightarrow> andthen (EID_of v) (\<lambda>e. Inr (Some e))) = Inr (submitter b)"
    unfolding 3 by (cases "submitter b") (simp_all add: andthen_def)
  have whole: "\<lparr> type = type b, source = source b, destination = destination b,
           payload = payload b, success = success b, error = error b,
           node_type = BundleData.node_type b, submitter = submitter b,
           named_data = named_data b \<rparr> = b"
    by simp
  have "BundleData_from_dict (PDict ?d) = new_BundleData b"
    unfolding BundleData_from_dict_def
    by (simp add: 1 2 s3 4 5 6 7 8 9 10 andthen_def whole)
  then show ?thesis using valid by (simp add: new_BundleData_def)
qed


lemma constructor_for_members:
  "constructor_for (PInt REPLY) = Some Reply_from_dict"
  "constructor_for (PInt REGISTER) = Some Register_from_dict"
  "constructor_for (PInt FETCH) = Some Fetch_from_dict"
  "constructor_for (PInt FETCH_REPLY) = Some FetchReply_from_dict"
  "constructor_for (PInt CREATE) = Some BundleCreate_from_dict"
  by (simp_all add: constructor_for_def MESSAGE_CONSTRUCTORS_def MessageType_defs)

lemma deserialize_known:
  assumes "unpackb serialized = Inr (PDict d)"
    and "map_of d ''type'' = Some (PInt t)"
    and "constructor_for (PInt t) = Some from_dict"
  shows "deserialize unpackb serialized = from_dict d"
  using assms by (simp add: deserialize_def getitem_def andthen_def)

lemma Reply_roundtrip:
  assumes "new_Reply t ok err = Inr m"
    and "unpackb serialized = Inr (wire_form (PDict (Message_dictify m)))"
  shows "deserialize unpackb serialized = Inr m"
proof -
  from assms(1) have m: "m = Reply t ok err" and t: "t = REPLY"
    and p: "Reply_post_init REPLY ok err = None"
    by (auto simp: new_Reply_def Reply_post_init_def split: if_splits option.splits)
  let ?d = "[(''type'', PInt REPLY), (''success'', PBool ok), (''error'', PStr err)]"
  have u: "unpackb serialized = Inr (PDict ?d)" using assms(2) by (simp add: m t)
  have "deserialize unpackb serialized = Reply_from_dict ?d"
    using deserialize_known[of unpackb serialized ?d REPLY Reply_from_dict] u
      constructor_for_members(1) by simp
  also have "\<dots> = new_Reply REPLY ok err"
    by (simp add: Reply_from_dict_def bind_kwargs_def typed_def andthen_def)
  finally show ?thesis using p by (simp add: new_Reply_def m t)
qed


lemma Register_roundtrip:
  assumes "new_Register t endpoint = Inr m"
    and "endpoint \<noteq> []"
    and "unpackb serialized = Inr (wire_form (PDict (Message_dictify m)))"
  shows "deserialize unpackb serialized = Inr m"
proof -
  from assms(1) have m: "m = Register t endpoint" and t: "t = REGISTER"
    by (auto simp: new_Register_def Register_post_init_def split: if_splits option.splits)
  let ?d = "[(''type'', PInt REGISTER), (''endpoint_id'', PStr endpoint)]"
  have u: "unpackb serialized = Inr (PDict ?d)" using assms(3) by (simp add: m t)
  have "deserialize unpackb serialized = Register_from_dict ?d"
    using deserialize_known[of unpackb serialized ?d REGISTER Register_from_dict] u
      constructor_for_members(2) by simp
  also have "\<dots> = Inr (Register REGISTER endpoint)"
    using assms(2)
    by (simp add: Register_from_dict_def Register_post_init_def bind_kwargs_def typed_def
          andthen_def)
  finally show ?thesis by (simp add: m t)
qed

lemma Fetch_roundtrip:
  assumes "new_Fetch t endpoint nt = Inr m"
    and "endpoint \<noteq> []"
    and "unpackb serialized = Inr (wire_form (PDict (Message_dictify m)))"
  shows "deserialize unpackb serialized = Inr m"
proof -
  from assms(1) have m: "m = Fetch t endpoint nt" and t: "t = FETCH"
    by (auto simp: new_Fetch_def Fetch_post_init_def split: if_splits option.splits)
  let ?d = "[(''type'', PInt FETCH), (''endpoint_id'', PStr endpoint),
             (''node_type'', wire_form (num_val nt))]"
  have u: "unpackb serialized = Inr (PDict ?d)" using assms(3) by (simp add: m t)
  have "deserialize unpackb serialized = Fetch_from_dict ?d"
    using deserialize_known[of unpackb serialized ?d FETCH Fetch_from_dict] u
      constructor_for_members(3) by simp
  also have "\<dots> = Inr (Fetch FETCH endpoint nt)"
    using assms(2)
    by (simp add: Fetch_from_dict_def Fetch_post_init_def bind_kwargs_def typed_def andthen_def
          as_number_num_val del: wire_form.simps)
  finally show ?thesis by (simp add: m t)
qed

lemma BundleCreate_roundtrip:
  assumes "new_BundleCreate t b = Inr m"
    and "BundleData_post_init b = None \<and> type b \<noteq> 0
             \<and> (submitter b = None \<or> py_bool (submitter_val (submitter b)))
             \<and> (named_data b = None \<or> py_bool (named_val (named_data b)))"
    and "unpackb serialized = Inr (wire_form (PDict (Message_dictify m)))"
  shows "deserialize unpackb serialized = Inr m"
proof -
  from assms(1) have m: "m = BundleCreate t b" and t: "t = CREATE"
    by (auto simp: new_BundleCreate_def BundleCreate_post_init_def split: if_splits option.splits)
  let ?b = "wire_form (PDict (BundleData_dictify b))"
  let ?d = "[(''type'', PInt CREATE), (''bundle'', ?b)]"
  have b: "BundleData_from_dict ?b = Inr b"
    using assms(2) by (intro BundleData_roundtrip) simp_all
  have u: "unpackb serialized = Inr (PDict ?d)" using assms(3) by (simp add: m t)
  have "deserialize unpackb serialized = BundleCreate_from_dict ?d"
    using deserialize_known[of unpackb serialized ?d CREATE BundleCreate_from_dict] u
      constructor_for_members(5) by simp
  also have "\<dots> = Inr (BundleCreate CREATE b)"
    unfolding BundleCreate_from_dict_def getitem_def
    by (simp add: b andthen_def bind_kwargs_def typed_def new_BundleCreate_def
          BundleCreate_post_init_def del: wire_form.simps)
  finally show ?thesis by (simp add: m t)
qed

lemma bundles_roundtrip:
  assumes "\<forall>b \<in> set bundles. BundleData_post_init b = None \<and> type b \<noteq> 0
             \<and> (submitter b = None \<or> py_bool (submitter_val (submitter b)))
             \<and> (named_data b = None \<or> py_bool (named_val (named_data b)))"
  shows "map_exn BundleData_from_dict
           (map (\<lambda>b. wire_form (PDict (BundleData_dictify b))) bundles) = Inr bundles"
  using assms
proof (induction bundles)
  case Nil
  show ?case by simp
next
  case (Cons b bundles)
  from Cons.prems have 1: "BundleData_from_dict (wire_form (PDict (BundleData_dictify b))) = Inr b"
    by (intro BundleData_roundtrip) simp_all
  from Cons have 2: "map_exn BundleData_from_dict
           (map (\<lambda>b. wire_form (PDict (BundleData_dictify b))) bundles) = Inr bundles"
    by simp
  show ?case by (simp add: 1 2 del: wire_form.simps)
qed

lemma FetchReply_roundtrip:
  assumes "new_FetchReply t ok err bundles = Inr m"
    and "\<forall>b \<in> set bundles. BundleData_post_init b = None \<and> type b \<noteq> 0
             \<and> (submitter b = None \<or> py_bool (submitter_val (submitter b)))
             \<and> (named_data b = None \<or> py_bool (named_val (named_data b)))"
    and "unpackb serialized = Inr (wire_form (PDict (Message_dictify m)))"
  shows "deserialize unpackb serialized = Inr m"
proof -
  from assms(1) have m: "m = FetchReply t ok err bundles" and t: "t = FETCH_REPLY"
    by (auto simp: new_FetchReply_def FetchReply_post_init_def split: if_splits option.splits)
  let ?bs = "map (\<lambda>b. PDict (map (\<lambda>(k, v). (k, wire_form v)) (BundleData_dictify b))) bundles"
  let ?d = "[(''type'', PInt FETCH_REPLY), (''success'', PBool ok), (''error'', PStr err),
             (''bundles'', PList ?bs)]"
  have bs: "map_exn BundleData_from_dict ?bs = Inr bundles"
    using bundles_roundtrip[OF assms(2)] by simp
  have u: "unpackb serialized = Inr (PDict ?d)"
    using assms(3) by (simp add: m t comp_def)
  have "deserialize unpackb serialized = FetchReply_from_dict ?d"
    using deserialize_known[of unpackb serialized ?d FETCH_REPLY FetchReply_from_dict] u
      constructor_for_members(4) by simp
  also have "\<dots> = Inr (FetchReply FETCH_REPLY ok err bundles)"
    unfolding FetchReply_from_dict_def getitem_def
    by (simp add: bs andthen_def bind_kwargs_def typed_def new_FetchReply_def
          FetchReply_post_init_def)
  finally show ?thesis by (simp add: m t)
qed

text \<open>
  C1 on the code, at a BundleCreate whose bundle is a JOB_SUBMIT with the empty text as
  \<open>named_data\<close>. The bundle and the message pass construction; \<open>dictify\<close> drops the empty
  \<open>named_data\<close> as it drops every falsy field; so when msgpack decodes what it packed,
  \<open>deserialize\<close> returns the message with \<open>named_data\<close> None, which is another message.
\<close>

theorem roundtrip_drops_empty_named_data:
  assumes "serialize packb (BundleCreate CREATE \<lparr> type = JOB_SUBMIT, source = ''dtn://c/'', destination = ''dtn://b1/'',
         payload = ''job'', success = True, error = [], node_type = 0,
         submitter = None, named_data = Some (Name []) \<rparr>) = Inr serialized"
    and "unpackb serialized =
           Inr (wire_form (PDict (Message_dictify (BundleCreate CREATE \<lparr> type = JOB_SUBMIT, source = ''dtn://c/'', destination = ''dtn://b1/'',
         payload = ''job'', success = True, error = [], node_type = 0,
         submitter = None, named_data = Some (Name []) \<rparr>))))"
  shows "new_BundleData \<lparr> type = JOB_SUBMIT, source = ''dtn://c/'', destination = ''dtn://b1/'',
         payload = ''job'', success = True, error = [], node_type = 0,
         submitter = None, named_data = Some (Name []) \<rparr>
         = Inr \<lparr> type = JOB_SUBMIT, source = ''dtn://c/'', destination = ''dtn://b1/'',
         payload = ''job'', success = True, error = [], node_type = 0,
         submitter = None, named_data = Some (Name []) \<rparr>
     \<and> new_BundleCreate CREATE \<lparr> type = JOB_SUBMIT, source = ''dtn://c/'', destination = ''dtn://b1/'',
         payload = ''job'', success = True, error = [], node_type = 0,
         submitter = None, named_data = Some (Name []) \<rparr>
         = Inr (BundleCreate CREATE \<lparr> type = JOB_SUBMIT, source = ''dtn://c/'', destination = ''dtn://b1/'',
         payload = ''job'', success = True, error = [], node_type = 0,
         submitter = None, named_data = Some (Name []) \<rparr>)
     \<and> deserialize unpackb serialized
         = Inr (BundleCreate CREATE \<lparr> type = JOB_SUBMIT, source = ''dtn://c/'', destination = ''dtn://b1/'',
         payload = ''job'', success = True, error = [], node_type = 0,
         submitter = None, named_data = None \<rparr>)
     \<and> BundleCreate CREATE \<lparr> type = JOB_SUBMIT, source = ''dtn://c/'', destination = ''dtn://b1/'',
         payload = ''job'', success = True, error = [], node_type = 0,
         submitter = None, named_data = None \<rparr>
         \<noteq> BundleCreate CREATE \<lparr> type = JOB_SUBMIT, source = ''dtn://c/'', destination = ''dtn://b1/'',
         payload = ''job'', success = True, error = [], node_type = 0,
         submitter = None, named_data = Some (Name []) \<rparr>"
  using assms(2) by (simp add: message_eval)


theorem roundtrip_drops_empty_named_data_witness:
  "deserialize
     (\<lambda>_. Inr (wire_form (PDict (Message_dictify (BundleCreate CREATE \<lparr> type = JOB_SUBMIT, source = ''dtn://c/'', destination = ''dtn://b1/'',
         payload = ''job'', success = True, error = [], node_type = 0,
         submitter = None, named_data = Some (Name []) \<rparr>)))))
     ''bytes''
   = Inr (BundleCreate CREATE \<lparr> type = JOB_SUBMIT, source = ''dtn://c/'', destination = ''dtn://b1/'',
         payload = ''job'', success = True, error = [], node_type = 0,
         submitter = None, named_data = None \<rparr>)"
proof -
  let ?m = "BundleCreate CREATE \<lparr> type = JOB_SUBMIT, source = ''dtn://c/'', destination = ''dtn://b1/'',
         payload = ''job'', success = True, error = [], node_type = 0,
         submitter = None, named_data = Some (Name []) \<rparr>"
  let ?p = "\<lambda>_ :: pyval. Inr ''bytes'' :: exn + bytes"
  let ?u = "\<lambda>_ :: bytes. Inr (wire_form (PDict (Message_dictify ?m))) :: exn + pyval"
  have 1: "serialize ?p ?m = Inr ''bytes''" by (simp add: serialize_def)
  have 2: "?u ''bytes'' = Inr (wire_form (PDict (Message_dictify ?m)))" by simp
  from roundtrip_drops_empty_named_data[of ?p "''bytes''" ?u, OF 1 2] show ?thesis by blast
qed

end
